theory Spec2Isabelle
  imports Complex_Main "HOL-Library.Log_Nat"
begin

section \<open>Request client (services/api.ts)\<close>

subsection \<open>Data of the HTTP boundary\<close>

text \<open>
  The constants at the head of \<^verbatim>\<open>api.ts\<close>. Times are in milliseconds.
\<close>

definition API_TIMEOUT :: nat where
  "API_TIMEOUT = 60000"

definition MAX_RETRIES :: nat where
  "MAX_RETRIES = 3"

text \<open>
  The body of an error response as \<^verbatim>\<open>formatApiError\<close> looks at it: nothing (or a falsy
  value), a value that is not an object, or an object of which the fields
  \<^verbatim>\<open>error\<close>, \<^verbatim>\<open>detail\<close> and \<^verbatim>\<open>details\<close> are read (\<open>None\<close> when the field is absent).
\<close>

record ErrorBody =
  body_error :: "string option"
  body_detail :: "string option"
  body_details :: "string option"

datatype ResponseData = NoData | TextData string | ObjectData ErrorBody

record AxiosRequestConfig =
  url :: "string option"
  http_method :: string

record AxiosResponse =
  status :: nat
  statusText :: string
  data :: ResponseData
  response_config :: AxiosRequestConfig

record AxiosError =
  code :: "string option"
  message :: string
  response :: "AxiosResponse option"
  config :: "AxiosRequestConfig option"

record ApiErrorResponse =
  error :: string
  details :: "string option"

text \<open>
  What the transport does with one attempt: the backend answers with a status line and a
  body, or no answer arrives and the transport reports an error code and a message.
\<close>

datatype wire =
  Answer nat string ResponseData
  | NoAnswer "string option" string

text \<open>Decimal digits of a number, as a template literal prints an integer.\<close>

fun string_of_nat :: "nat \<Rightarrow> string" where
  "string_of_nat n =
     (if n < 10 then [char_of (48 + n)]
      else string_of_nat (n div 10) @ [char_of (48 + n mod 10)])"

declare string_of_nat.simps [simp del]

text \<open>
  The HTTP library settles an attempt: a status in \<open>[200, 300)\<close> fulfils the promise, any
  other answer rejects it with an error that carries the response, and a missing answer
  rejects it with an error that carries none. Every such error carries the request's
  configuration.
\<close>

definition status_code :: "nat \<Rightarrow> string option" where
  "status_code st =
     (if st div 100 = 4 then Some ''ERR_BAD_REQUEST''
      else if st div 100 = 5 then Some ''ERR_BAD_RESPONSE''
      else None)"

definition settle :: "AxiosRequestConfig \<Rightarrow> wire \<Rightarrow> AxiosError + AxiosResponse" where
  "settle cfg w =
     (case w of
        Answer st txt d \<Rightarrow>
          (let r = \<lparr>status = st, statusText = txt, data = d, response_config = cfg\<rparr>
           in if 200 \<le> st \<and> st < 300 then Inr r
              else Inl \<lparr>code = status_code st,
                        message = ''Request failed with status code '' @ string_of_nat st,
                        response = Some r,
                        config = Some cfg\<rparr>)
      | NoAnswer c m \<Rightarrow>
          Inl \<lparr>code = c, message = m, response = None, config = Some cfg\<rparr>)"

subsection \<open>The service object\<close>

text \<open>
  \<^verbatim>\<open>retryAttempts\<close> is the private map of the class. \<open>trace\<close> is ghost state that
  records, in order, what the service did: each attempt it put on the wire and each
  delay (in milliseconds) it waited for.
\<close>

datatype event = Attempt | Wait nat

record ApiService =
  retryAttempts :: "string \<rightharpoonup> nat"
  trace :: "event list"

definition fresh_service :: ApiService where
  "fresh_service = \<lparr>retryAttempts = Map.empty, trace = []\<rparr>"

definition sent :: "ApiService \<Rightarrow> nat" where
  "sent s = length (filter (\<lambda>e. e = Attempt) (trace s))"

definition attempted :: "ApiService \<Rightarrow> ApiService" where
  "attempted s = s\<lparr>trace := trace s @ [Attempt]\<rparr>"

text \<open>JavaScript truthiness of an optional string: absent and empty are falsy.\<close>

definition truthy :: "string option \<Rightarrow> bool" where
  "truthy s = (case s of None \<Rightarrow> False | Some t \<Rightarrow> t \<noteq> [])"

text \<open>\<^verbatim>\<open>config?.url || 'unknown'\<close>\<close>

definition url_of :: "AxiosRequestConfig option \<Rightarrow> string" where
  "url_of c =
     (case c of
        None \<Rightarrow> ''unknown''
      | Some cfg \<Rightarrow> if truthy (url cfg) then the (url cfg) else ''unknown'')"

text \<open>\<^verbatim>\<open>this.retryAttempts.get(url) || 0\<close>\<close>

definition currentRetries :: "ApiService \<Rightarrow> string \<Rightarrow> nat" where
  "currentRetries s u = (case retryAttempts s u of None \<Rightarrow> 0 | Some n \<Rightarrow> n)"

definition shouldRetry :: "AxiosError \<Rightarrow> bool" where
  "shouldRetry e =
     (case response e of
        None \<Rightarrow> True
      | Some r \<Rightarrow> 500 \<le> status r \<and> status r < 600)"

text \<open>
  \<^verbatim>\<open>formatApiError\<close>. The \<^verbatim>\<open>timestamp\<close> field of the result is the wall clock and is
  read by no caller; it is left out.
\<close>

definition formatApiError :: "AxiosError \<Rightarrow> ApiErrorResponse" where
  "formatApiError e =
     (case response e of
        Some r \<Rightarrow>
          (case data r of
             ObjectData b \<Rightarrow>
               \<lparr>error = (if truthy (body_error b) then the (body_error b)
                          else if truthy (body_detail b) then the (body_detail b)
                          else ''Unknown API error''),
                 details = body_details b\<rparr>
           | _ \<Rightarrow>
               \<lparr>error = ''HTTP '' @ string_of_nat (status r) @ '': '' @ statusText r,
                 details = None\<rparr>)
      | None \<Rightarrow>
          \<lparr>error = (if message e \<noteq> [] then message e else ''Unknown error occurred''),
            details = None\<rparr>)"

text \<open>
  \<^verbatim>\<open>handleResponseError\<close> either throws an \<^verbatim>\<open>Error\<close> with a message or, after it has
  counted the retry and waited, hands the request back to the client
  (\<^verbatim>\<open>return this.client.request(config)\<close>). The second outcome is the value \<open>Retry\<close>:
  the client's \<open>request\<close> below sends it again.
\<close>

datatype handled = Thrown string | Retry AxiosRequestConfig

definition handleResponseError :: "AxiosError \<Rightarrow> ApiService \<Rightarrow> handled \<times> ApiService" where
  "handleResponseError e s =
     (let u = url_of (config e) in
      if code e = Some ''ECONNABORTED'' then
        (Thrown ''Request timed out. Please try again.'', s)
      else if code e = Some ''ECONNREFUSED'' \<or> code e = Some ''ENOTFOUND'' then
        (Thrown ''Unable to connect to DeepGuard backend. Please ensure the server is running.'', s)
      else if config e \<noteq> None \<and> shouldRetry e then
        (if currentRetries s u < MAX_RETRIES then
           (Retry (the (config e)),
            s\<lparr>retryAttempts := (retryAttempts s)(u \<mapsto> currentRetries s u + 1),
              trace := trace s @ [Wait (2 ^ currentRetries s u * 1000)]\<rparr>)
         else (Thrown (error (formatApiError e)), s))
      else
        (Thrown (error (formatApiError e)), s))"

text \<open>
  The fulfilled branch of the response interceptor: the counter of the response's url is
  deleted when that url is a non-empty string.
\<close>

definition onFulfilled :: "AxiosResponse \<Rightarrow> ApiService \<Rightarrow> ApiService" where
  "onFulfilled r s =
     (if truthy (url (response_config r))
      then s\<lparr>retryAttempts := (retryAttempts s)(the (url (response_config r)) := None)\<rparr>
      else s)"

text \<open>
  Two facts the termination of the retry loop rests on: a rejected attempt carries the
  configuration it was sent with, and a scheduled retry has raised the counter of that
  configuration's url, which was below \<open>MAX_RETRIES\<close>.
\<close>

lemma settle_config: "settle cfg w = Inl e \<Longrightarrow> config e = Some cfg"
  by (auto simp: settle_def Let_def split: wire.splits if_splits)

lemma handleResponseError_Retry:
  "handleResponseError e s = (Retry cfg', s') \<Longrightarrow>
     config e = Some cfg' \<and> currentRetries s (url_of (config e)) < MAX_RETRIES \<and>
     currentRetries s' (url_of (config e)) = currentRetries s (url_of (config e)) + 1"
  by (auto simp: handleResponseError_def Let_def currentRetries_def split: if_splits)

text \<open>
  \<^verbatim>\<open>this.client.request(config)\<close> with both interceptors installed. \<open>net\<close> is the
  backend and the network: what attempt number \<open>n\<close> of this service meets on the wire.
  The result is the response, or the message of the \<^verbatim>\<open>Error\<close> thrown.
\<close>

function request ::
  "(nat \<Rightarrow> wire) \<Rightarrow> AxiosRequestConfig \<Rightarrow> ApiService \<Rightarrow> (string + AxiosResponse) \<times> ApiService"
where
  "request net cfg s =
     (case settle cfg (net (sent s)) of
        Inr r \<Rightarrow> (Inr r, onFulfilled r (attempted s))
      | Inl e \<Rightarrow>
          (case handleResponseError e (attempted s) of
             (Thrown msg, s') \<Rightarrow> (Inl msg, s')
           | (Retry cfg', s') \<Rightarrow> request net cfg' s'))"
  by pat_completeness auto

termination
proof (relation "measure (\<lambda>(net, cfg, s). MAX_RETRIES - currentRetries s (url_of (Some cfg)))")
  show "wf (measure (\<lambda>(net, cfg, s). MAX_RETRIES - currentRetries s (url_of (Some cfg))))"
    by simp
next
  fix net cfg s e h s' cfg'
  assume st: "settle cfg (net (sent s)) = Inl e"
    and hp: "(h, s') = handleResponseError e (attempted s)"
    and h: "h = Retry cfg'"
  from st have c: "config e = Some cfg" by (rule settle_config)
  from hp h have "handleResponseError e (attempted s) = (Retry cfg', s')"
    by simp
  from handleResponseError_Retry [OF this] c
  have "cfg' = cfg"
    and "currentRetries (attempted s) (url_of (Some cfg)) < MAX_RETRIES"
    and "currentRetries s' (url_of (Some cfg))
         = currentRetries (attempted s) (url_of (Some cfg)) + 1"
    by auto
  moreover have "currentRetries (attempted s) (url_of (Some cfg))
                 = currentRetries s (url_of (Some cfg))"
    by (simp add: currentRetries_def attempted_def)
  ultimately show "((net, cfg', s'), (net, cfg, s))
        \<in> measure (\<lambda>(net, cfg, s). MAX_RETRIES - currentRetries s (url_of (Some cfg)))"
    by simp
qed

declare request.simps [simp del]

text \<open>
  The state after one failed attempt that is retried: the attempt, the counter of the url
  one higher, and the wait before the next attempt.
\<close>

definition retried :: "string \<Rightarrow> ApiService \<Rightarrow> ApiService" where
  "retried u s = s\<lparr>retryAttempts := (retryAttempts s)(u \<mapsto> currentRetries s u + 1),
                   trace := trace s @ [Attempt, Wait (2 ^ currentRetries s u * 1000)]\<rparr>"

section \<open>Upload progress (detectDeepfake in services/api.ts)\<close>

text \<open>
  The progress event of the HTTP library (\<^verbatim>\<open>progressEvent.total\<close> may be undefined) and the
  event handed to the caller's \<^verbatim>\<open>onProgress\<close>. Byte counts are natural numbers.
\<close>

record AxiosProgressEvent =
  ev_loaded :: nat
  ev_total :: "nat option"

record UploadProgressEvent =
  loaded :: nat
  total :: nat
  percentage :: int

text \<open>
  JavaScript numbers are binary64 values. Every finite one is a rational, and the
  result of an arithmetic operation is its exact result rounded to the nearest binary64
  value, a tie going to the even significand. \<open>exponent x\<close> is the binade of a
  positive \<open>x\<close> (\<open>2 ^ e \<le> x < 2 ^ (e + 1)\<close>, proved below), and \<open>binary64 x\<close> rounds
  \<open>x\<close> to 53 significant bits. Overflow and subnormal numbers are not modelled: byte
  counts and their quotients stay far inside the normal range.
\<close>

definition roundTiesToEven :: "rat \<Rightarrow> int" where
  "roundTiesToEven m =
     (let f = \<lfloor>m\<rfloor> in
      if m - of_int f < 1 / 2 then f
      else if 1 / 2 < m - of_int f then f + 1
      else if even f then f else f + 1)"

definition exponent :: "rat \<Rightarrow> int" where
  "exponent x =
     (let d = bitlen (fst (quotient_of x)) - bitlen (snd (quotient_of x))
      in if 2 powi d \<le> x then d else d - 1)"

definition binary64 :: "rat \<Rightarrow> rat" where
  "binary64 x =
     (if x = 0 then 0
      else sgn x * of_int (roundTiesToEven (\<bar>x\<bar> * 2 powi (52 - exponent \<bar>x\<bar>)))
             * 2 powi (exponent \<bar>x\<bar> - 52))"

text \<open>
  \<^verbatim>\<open>Math.round\<close>: the nearest integer, a tie going up.
\<close>

definition Math_round :: "rat \<Rightarrow> int" where
  "Math_round x = \<lfloor>x + 1 / 2\<rfloor>"

text \<open>
  The argument with which \<^verbatim>\<open>onUploadProgress\<close> calls \<^verbatim>\<open>onProgress\<close>; \<open>None\<close> when the
  total is undefined or zero and the callback is not called. The percentage is
  \<^verbatim>\<open>Math.round((progressEvent.loaded * 100) / progressEvent.total)\<close>, the product and the
  quotient each rounded to binary64.
\<close>

definition progressReport :: "AxiosProgressEvent \<Rightarrow> UploadProgressEvent option" where
  "progressReport ev =
     (case ev_total ev of
        None \<Rightarrow> None
      | Some t \<Rightarrow>
          if t = 0 then None
          else Some \<lparr>loaded = ev_loaded ev, total = t,
                     percentage =
                       Math_round (binary64 (binary64 (of_nat (ev_loaded ev) * 100) / of_nat t))\<rparr>)"

text \<open>
  \<^verbatim>\<open>onUploadProgress\<close> with the caller's optional callback, which acts on the caller's
  state.
\<close>

definition onUploadProgress ::
  "(UploadProgressEvent \<Rightarrow> 'st \<Rightarrow> 'st) option \<Rightarrow> AxiosProgressEvent \<Rightarrow> 'st \<Rightarrow> 'st" where
  "onUploadProgress onProgress ev st =
     (case onProgress of
        None \<Rightarrow> st
      | Some cb \<Rightarrow> (case progressReport ev of None \<Rightarrow> st | Some p \<Rightarrow> cb p st))"



section \<open>Format validator (validateFile in services/api.ts)\<close>

text \<open>
  A file is its name and its size in bytes. Names are byte strings here, and
  \<^verbatim>\<open>toLowerCase\<close> lowers the ASCII letters.
\<close>

record File =
  name :: string
  size_bytes :: nat

record SupportedFormatsResponse =
  audio :: "string list"
  image_exts :: "string list"

datatype validation = Valid | Invalid string

text \<open>
  \<^verbatim>\<open>s.split(c)\<close>: the pieces of \<open>s\<close> between the occurrences of \<open>c\<close>; never the empty
  list.
\<close>

fun split :: "char \<Rightarrow> string \<Rightarrow> string list" where
  "split c [] = [[]]"
| "split c (x # xs) =
     (if x = c then [] # split c xs
      else (case split c xs of
              [] \<Rightarrow> [[x]]
            | w # ws \<Rightarrow> (x # w) # ws))"

definition toLowerCase_char :: "char \<Rightarrow> char" where
  "toLowerCase_char c =
     (if 65 \<le> (of_char c :: nat) \<and> (of_char c :: nat) \<le> 90
      then char_of ((of_char c :: nat) + 32) else c)"

definition toLowerCase :: "string \<Rightarrow> string" where
  "toLowerCase s = map toLowerCase_char s"

text \<open>\<^verbatim>\<open>xs.join(sep)\<close>\<close>

fun join :: "string \<Rightarrow> string list \<Rightarrow> string" where
  "join sep [] = []"
| "join sep [x] = x"
| "join sep (x # y # ys) = x @ sep @ join sep (y # ys)"

text \<open>
  \<^verbatim>\<open>'.' + file.name.split('.').pop()?.toLowerCase()\<close>. \<^verbatim>\<open>pop\<close> of an empty array is
  undefined, which the concatenation prints as \<^verbatim>\<open>undefined\<close>.
\<close>

definition fileExtension :: "File \<Rightarrow> string" where
  "fileExtension file =
     ''.'' @ (case split (CHR ''.'') (name file) of
                [] \<Rightarrow> ''undefined''
              | ps \<Rightarrow> toLowerCase (last ps))"

definition maxSize :: nat where
  "maxSize = 100 * 1024 * 1024"

text \<open>
  \<^verbatim>\<open>(file.size / 1024 / 1024).toFixed(2)\<close>: the size in MiB to the nearest hundredth (a tie
  going up), printed with two decimals.
\<close>

definition toFixed2_MB :: "nat \<Rightarrow> string" where
  "toFixed2_MB n =
     (let h = (n * 200 + 1048576) div 2097152
      in string_of_nat (h div 100) @ ''.'' @ string_of_nat (h mod 100 div 10)
           @ string_of_nat (h mod 10))"

text \<open>
  \<^verbatim>\<open>validateFile\<close>. Its first step fetches the supported formats; the argument \<open>fetched\<close>
  is the outcome of that call, \<open>Inl\<close> when it threw.
\<close>

definition validateFile :: "File \<Rightarrow> string + SupportedFormatsResponse \<Rightarrow> validation" where
  "validateFile file fetched =
     (case fetched of
        Inl err \<Rightarrow> Invalid ''Unable to validate file format. Please try again.''
      | Inr formats \<Rightarrow>
          (let allSupportedExtensions = audio formats @ image_exts formats in
           if fileExtension file \<notin> set allSupportedExtensions then
             Invalid (''Unsupported file format: '' @ fileExtension file
                      @ ''. Supported formats: '' @ join '', '' allSupportedExtensions)
           else if size_bytes file > maxSize then
             Invalid (''File too large: '' @ toFixed2_MB (size_bytes file)
                      @ ''MB. Maximum size: 100MB'')
           else Valid))"

section \<open>Analysis session (useFileAnalysis in hooks/useApi.ts)\<close>

datatype FileType = AUDIO | IMAGE | VIDEO | UNKNOWN

datatype DetectionResult = REAL | FAKE | UNCERTAIN

text \<open>The response of the detect call; its free-form metadata is left out.\<close>

record DetectionResponse =
  file_type :: FileType
  detection_result :: DetectionResult
  confidence_score :: rat
  processing_time_ms :: rat
  file_hash :: string
  timestamp :: string

record FileAnalysisState =
  isAnalyzing :: bool
  progress :: int
  error :: "string option"
  result :: "DetectionResponse option"
  uploadedFile :: "File option"

text \<open>
  One instance of the hook. Abort controllers are numbered in the order of their
  creation: \<open>controllers\<close> holds the \<^verbatim>\<open>aborted\<close> flag of each, and
  \<open>abortControllerRef\<close> is the number of the controller the ref points to, \<open>None\<close> for
  \<^verbatim>\<open>null\<close>. \<open>pending\<close> lists the detect requests that were issued and have not settled
  yet, each by the number of the controller whose signal it was given.
\<close>

record FileAnalysis =
  state :: FileAnalysisState
  abortControllerRef :: "nat option"
  controllers :: "bool list"
  pending :: "nat list"

definition useFileAnalysis :: FileAnalysis where
  "useFileAnalysis =
     \<lparr>state = \<lparr>isAnalyzing = False, progress = 0, error = None, result = None,
               uploadedFile = None\<rparr>,
      abortControllerRef = None, controllers = [], pending = []\<rparr>"

text \<open>\<^verbatim>\<open>controller.abort()\<close>\<close>

definition abort :: "nat \<Rightarrow> FileAnalysis \<Rightarrow> FileAnalysis" where
  "abort c h = h\<lparr>controllers := (controllers h)[c := True]\<rparr>"

text \<open>A request is live when it has not settled and its signal has not been aborted.\<close>

definition live :: "FileAnalysis \<Rightarrow> nat \<Rightarrow> bool" where
  "live h c \<longleftrightarrow> c \<in> set (pending h) \<and> c < length (controllers h) \<and> \<not> controllers h ! c"

text \<open>
  \<^verbatim>\<open>analyzeFile\<close> runs in pieces, one between each two \<^verbatim>\<open>await\<close>s. The first piece
  starts when the validation has come back: a rejected file sets the error and ends the
  call; an accepted one resets the state, creates a new abort controller, stores it in the
  ref and issues the detect request with its signal.
\<close>

definition analyzeFile :: "File \<Rightarrow> validation \<Rightarrow> FileAnalysis \<Rightarrow> FileAnalysis" where
  "analyzeFile file v h =
     (case v of
        Invalid msg \<Rightarrow>
          h\<lparr>state := (state h)\<lparr>error := Some msg, isAnalyzing := False\<rparr>\<rparr>
      | Valid \<Rightarrow>
          h\<lparr>state := \<lparr>isAnalyzing = True, progress = 0, error = None, result = None,
                       uploadedFile = Some file\<rparr>,
            abortControllerRef := Some (length (controllers h)),
            controllers := controllers h @ [False],
            pending := pending h @ [length (controllers h)]\<rparr>)"

text \<open>The progress callback that \<^verbatim>\<open>analyzeFile\<close> passes to the detect call.\<close>

definition analyzeFile_onProgress :: "UploadProgressEvent \<Rightarrow> FileAnalysis \<Rightarrow> FileAnalysis" where
  "analyzeFile_onProgress p h = h\<lparr>state := (state h)\<lparr>progress := percentage p\<rparr>\<rparr>"

text \<open>
  The piece after \<^verbatim>\<open>await apiService.detectDeepfake(...)\<close> when request \<open>c\<close> is fulfilled
  with \<open>r\<close>. A request that is not live is not fulfilled.
\<close>

definition analyzeFile_fulfilled :: "nat \<Rightarrow> DetectionResponse \<Rightarrow> FileAnalysis \<Rightarrow> FileAnalysis" where
  "analyzeFile_fulfilled c r h =
     (if live h c
      then h\<lparr>state := (state h)\<lparr>isAnalyzing := False, progress := 100, result := Some r\<rparr>,
             pending := removeAll c (pending h)\<rparr>
      else h)"

text \<open>
  The \<^verbatim>\<open>catch\<close> piece when request \<open>c\<close> is rejected with an error of message \<open>msg\<close>
  (an aborted request is rejected with \<^verbatim>\<open>Upload was cancelled\<close>).
\<close>

definition analyzeFile_rejected :: "nat \<Rightarrow> string \<Rightarrow> FileAnalysis \<Rightarrow> FileAnalysis" where
  "analyzeFile_rejected c msg h =
     (if c \<in> set (pending h)
      then h\<lparr>state := (state h)\<lparr>isAnalyzing := False,
                 error := Some (if msg \<noteq> [] then msg
                                else ''Analysis failed. Please try again.'')\<rparr>,
             pending := removeAll c (pending h)\<rparr>
      else h)"

definition cancelAnalysis :: "FileAnalysis \<Rightarrow> FileAnalysis" where
  "cancelAnalysis h =
     (case abortControllerRef h of
        None \<Rightarrow> h
      | Some c \<Rightarrow>
          (abort c h)\<lparr>state := (state h)\<lparr>isAnalyzing := False,
                          error := Some ''Analysis cancelled by user''\<rparr>\<rparr>)"

definition resetAnalysis :: "FileAnalysis \<Rightarrow> FileAnalysis" where
  "resetAnalysis h =
     (let h' = h\<lparr>state := \<lparr>isAnalyzing = False, progress = 0, error = None, result = None,
                          uploadedFile = None\<rparr>\<rparr>
      in case abortControllerRef h of
           None \<Rightarrow> h'
         | Some c \<Rightarrow> (abort c h')\<lparr>abortControllerRef := None\<rparr>)"

text \<open>\<^verbatim>\<open>canCancel: state.isAnalyzing && abortControllerRef.current !== null\<close>\<close>

definition canCancel :: "FileAnalysis \<Rightarrow> bool" where
  "canCancel h \<longleftrightarrow> isAnalyzing (state h) \<and> abortControllerRef h \<noteq> None"

section \<open>Calibration configuration (useAudioCalibration in hooks/useApi.ts)\<close>

text \<open>
  Every field of the configuration is optional; \<open>None\<close> is a field that reads as
  undefined. Numbers are finite and exact.
\<close>

record AudioCalibrationConfig =
  flip_output_interpretation :: "bool option"
  threshold :: "rat option"
  uncertainty_range :: "rat option"

definition defaultAudioConfig :: AudioCalibrationConfig where
  "defaultAudioConfig =
     \<lparr>flip_output_interpretation = Some False, threshold = Some (1 / 2),
      uncertainty_range = Some (1 / 10)\<rparr>"

text \<open>
  A partial update: each key is absent, or present with a value that may be undefined.
\<close>

datatype 'a entry = Absent | Entry "'a option"

record PartialConfig =
  new_flip_output_interpretation :: "bool entry"
  new_threshold :: "rat entry"
  new_uncertainty_range :: "rat entry"

text \<open>One key of \<^verbatim>\<open>{ ...config, ...newConfig }\<close>.\<close>

definition spread :: "'a option \<Rightarrow> 'a entry \<Rightarrow> 'a option" where
  "spread cur e = (case e of Absent \<Rightarrow> cur | Entry v \<Rightarrow> v)"

definition merge :: "AudioCalibrationConfig \<Rightarrow> PartialConfig \<Rightarrow> AudioCalibrationConfig" where
  "merge cfg newConfig =
     \<lparr>flip_output_interpretation =
        spread (flip_output_interpretation cfg) (new_flip_output_interpretation newConfig),
      threshold = spread (threshold cfg) (new_threshold newConfig),
      uncertainty_range = spread (uncertainty_range cfg) (new_uncertainty_range newConfig)\<rparr>"

text \<open>
  JSON values, and the texts that \<^verbatim>\<open>localStorage\<close> holds: a text that \<^verbatim>\<open>JSON.parse\<close>
  rejects (or the empty text), or the text of a JSON value.
\<close>

datatype json = JNull | JBool bool | JNumber rat | JString string | JObject "(string \<times> json) list"

datatype stored = Unparsable | Text json

text \<open>
  The browser's store: its items, and whether reading and writing it succeed (a store
  that is disabled throws on access, a full one throws on \<^verbatim>\<open>setItem\<close>).
\<close>

record localStorage =
  items :: "string \<rightharpoonup> stored"
  readable :: bool
  writable :: bool

definition storage_key :: string where
  "storage_key = ''deepguard_audio_calibration''"

text \<open>\<^verbatim>\<open>JSON.stringify\<close> of a configuration: the keys whose value is undefined are dropped.\<close>

definition JSON_stringify :: "AudioCalibrationConfig \<Rightarrow> json" where
  "JSON_stringify c =
     JObject
       ((case flip_output_interpretation c of
           None \<Rightarrow> [] | Some b \<Rightarrow> [(''flip_output_interpretation'', JBool b)])
        @ (case threshold c of None \<Rightarrow> [] | Some x \<Rightarrow> [(''threshold'', JNumber x)])
        @ (case uncertainty_range c of
             None \<Rightarrow> [] | Some x \<Rightarrow> [(''uncertainty_range'', JNumber x)]))"

text \<open>
  The parsed value read as a configuration: a key that is missing, or whose value is not
  of the field's type, reads as undefined.
\<close>

definition as_config :: "json \<Rightarrow> AudioCalibrationConfig" where
  "as_config j =
     (case j of
        JObject kvs \<Rightarrow>
          \<lparr>flip_output_interpretation =
             (case map_of kvs ''flip_output_interpretation'' of
                Some (JBool b) \<Rightarrow> Some b | _ \<Rightarrow> None),
           threshold =
             (case map_of kvs ''threshold'' of Some (JNumber x) \<Rightarrow> Some x | _ \<Rightarrow> None),
           uncertainty_range =
             (case map_of kvs ''uncertainty_range'' of
                Some (JNumber x) \<Rightarrow> Some x | _ \<Rightarrow> None)\<rparr>
      | _ \<Rightarrow>
          \<lparr>flip_output_interpretation = None, threshold = None, uncertainty_range = None\<rparr>)"

text \<open>
  The initial state of the hook: the saved configuration when there is one that parses,
  the default when there is none, when it does not parse or when the store throws.
\<close>

definition useAudioCalibration :: "localStorage \<Rightarrow> AudioCalibrationConfig" where
  "useAudioCalibration st =
     (if \<not> readable st then defaultAudioConfig
      else (case items st storage_key of
              None \<Rightarrow> defaultAudioConfig
            | Some Unparsable \<Rightarrow> defaultAudioConfig
            | Some (Text j) \<Rightarrow> as_config j))"

text \<open>
  \<^verbatim>\<open>setConfig\<close> and \<^verbatim>\<open>resetConfig\<close> act on the configuration held by the hook and on the
  store; a store that throws is left as it is.
\<close>

definition setConfig ::
  "PartialConfig \<Rightarrow> AudioCalibrationConfig \<times> localStorage \<Rightarrow> AudioCalibrationConfig \<times> localStorage"
where
  "setConfig newConfig cs =
     (let updatedConfig = merge (fst cs) newConfig; st = snd cs
      in (updatedConfig,
          if writable st
          then st\<lparr>items := (items st)(storage_key \<mapsto> Text (JSON_stringify updatedConfig))\<rparr>
          else st))"

definition resetConfig ::
  "AudioCalibrationConfig \<times> localStorage \<Rightarrow> AudioCalibrationConfig \<times> localStorage"
where
  "resetConfig cs =
     (let st = snd cs
      in (defaultAudioConfig,
          if writable st then st\<lparr>items := (items st)(storage_key := None)\<rparr> else st))"

section \<open>Calibration panel (components/AudioCalibration.js)\<close>

text \<open>\<^verbatim>\<open>config.uncertainty_range || 0.1\<close>: undefined and zero give the default.\<close>

definition shown_range :: "AudioCalibrationConfig \<Rightarrow> rat" where
  "shown_range cfg =
     (case uncertainty_range cfg of
        None \<Rightarrow> 1 / 10
      | Some x \<Rightarrow> if x = 0 then 1 / 10 else x)"

text \<open>
  The two numbers of the text \<^verbatim>\<open>Current range: [lo, hi]\<close>, before they are printed with
  two decimals.
\<close>

definition currentRange :: "AudioCalibrationConfig \<Rightarrow> rat \<times> rat" where
  "currentRange cfg = (1 / 2 - shown_range cfg / 2, 1 / 2 + shown_range cfg / 2)"

section \<open>Verdict interpreter\<close>

text \<open>
  The configuration and the interpretation rules below are those of the specification's
  verdict interpreter; no source file computes a verdict (the client displays the
  \<^verbatim>\<open>detection_result\<close> it receives).
\<close>

record CalibrationConfig =
  flipOutputInterpretation :: bool
  decisionThreshold :: rat
  uncertaintyRange :: rat

text \<open>
  Modelled from the spec: the effective fake-probability of the verdict interpreter,
  which is missing from the sources.
\<close>

definition pFake :: "rat \<Rightarrow> CalibrationConfig \<Rightarrow> rat" where
  "pFake s cfg = (if flipOutputInterpretation cfg then 1 - s else s)"

text \<open>
  Modelled from the spec: the uncertainty band of the verdict interpreter, clipped to
  \<open>[0, 1]\<close>; missing from the sources.
\<close>

definition band :: "CalibrationConfig \<Rightarrow> rat \<times> rat" where
  "band cfg =
     (max 0 (decisionThreshold cfg - uncertaintyRange cfg / 2),
      min 1 (decisionThreshold cfg + uncertaintyRange cfg / 2))"

text \<open>
  Modelled from the spec: the verdict interpreter's rule, applied in the order the
  specification gives; missing from the sources.
\<close>

definition interpret_verdict :: "rat \<Rightarrow> CalibrationConfig \<Rightarrow> DetectionResult" where
  "interpret_verdict s cfg =
     (let p = pFake s cfg in
      if fst (band cfg) \<le> p \<and> p \<le> snd (band cfg) then UNCERTAIN
      else if p \<ge> decisionThreshold cfg then FAKE
      else REAL)"

section \<open>Properties of the request client\<close>

lemma status_code_plain:
  "status_code st \<noteq> Some ''ECONNABORTED'' \<and> status_code st \<noteq> Some ''ECONNREFUSED''
   \<and> status_code st \<noteq> Some ''ENOTFOUND''"
  by (simp add: status_code_def)

lemma sent_attempted [simp]: "sent (attempted s) = sent s + 1"
  by (simp add: sent_def attempted_def)

lemma currentRetries_attempted [simp]: "currentRetries (attempted s) u = currentRetries s u"
  by (simp add: currentRetries_def attempted_def)

lemma request_5xx_retry:
  assumes "net (sent s) = Answer st txt d" and "500 \<le> st" and "st < 600"
    and "currentRetries s (url_of (Some cfg)) < MAX_RETRIES"
  shows "request net cfg s = request net cfg (retried (url_of (Some cfg)) s)"
  using assms status_code_plain [of st]
  by (subst request.simps)
     (simp add: settle_def handleResponseError_def shouldRetry_def Let_def retried_def
        attempted_def currentRetries_def)

lemma request_5xx_giveup:
  assumes "net (sent s) = Answer st txt d" and "500 \<le> st" and "st < 600"
    and "\<not> currentRetries s (url_of (Some cfg)) < MAX_RETRIES"
  shows "\<exists>e. settle cfg (net (sent s)) = Inl e \<and>
     request net cfg s = (Inl (ApiErrorResponse.error (formatApiError e)), attempted s)"
  using assms status_code_plain [of st]
  by (subst request.simps)
     (simp add: settle_def handleResponseError_def shouldRetry_def Let_def)

lemma sent_retried [simp]: "sent (retried u s) = sent s + 1"
  by (simp add: sent_def retried_def)

lemma currentRetries_retried [simp]: "currentRetries (retried u s) u = currentRetries s u + 1"
  by (simp add: currentRetries_def retried_def)

lemma trace_retried [simp]:
  "trace (retried u s) = trace s @ [Attempt, Wait (2 ^ currentRetries s u * 1000)]"
  by (simp add: retried_def)

lemma retryAttempts_retried [simp]:
  "retryAttempts (retried u s) = (retryAttempts s)(u \<mapsto> currentRetries s u + 1)"
  by (simp add: retried_def)



lemma request_always_5xx:
  assumes always: "\<forall>n. \<exists>st txt d. net n = Answer st txt d \<and> 500 \<le> st \<and> st < 600"
  shows "\<exists>e. settle cfg (net 3) = Inl e \<and>
           request net cfg fresh_service =
             (Inl (ApiErrorResponse.error (formatApiError e)),
              \<lparr>retryAttempts = [url_of (Some cfg) \<mapsto> 3],
               trace = [Attempt, Wait 1000, Attempt, Wait 2000, Attempt, Wait 4000, Attempt]\<rparr>)"
proof -
  let ?u = "url_of (Some cfg)"
  let ?s1 = "retried ?u fresh_service"
  let ?s2 = "retried ?u ?s1"
  let ?s3 = "retried ?u ?s2"
  have c0: "currentRetries fresh_service ?u = 0" and n0: "sent fresh_service = 0"
    by (simp_all add: currentRetries_def fresh_service_def sent_def)
  have n3: "sent ?s3 = 3"
    by (simp add: n0)
  from always obtain st0 t0 d0
    where a0: "net (sent fresh_service) = Answer st0 t0 d0" "500 \<le> st0" "st0 < 600"
    by blast
  from always obtain st1 t1 d1
    where a1: "net (sent ?s1) = Answer st1 t1 d1" "500 \<le> st1" "st1 < 600"
    by blast
  from always obtain st2 t2 d2
    where a2: "net (sent ?s2) = Answer st2 t2 d2" "500 \<le> st2" "st2 < 600"
    by blast
  from always obtain st3 t3 d3
    where a3: "net (sent ?s3) = Answer st3 t3 d3" "500 \<le> st3" "st3 < 600"
    by blast
  have r0: "request net cfg fresh_service = request net cfg ?s1"
    by (rule request_5xx_retry [where net = net and s = fresh_service, OF a0])
       (simp add: c0 MAX_RETRIES_def)
  have r1: "request net cfg ?s1 = request net cfg ?s2"
    by (rule request_5xx_retry [where net = net and s = "?s1", OF a1])
       (simp add: c0 MAX_RETRIES_def)
  have r2: "request net cfg ?s2 = request net cfg ?s3"
    by (rule request_5xx_retry [where net = net and s = "?s2", OF a2])
       (simp add: c0 MAX_RETRIES_def)
  have "\<exists>e. settle cfg (net (sent ?s3)) = Inl e \<and>
     request net cfg ?s3 = (Inl (ApiErrorResponse.error (formatApiError e)), attempted ?s3)"
    (is "\<exists>e. ?P e")
    by (rule request_5xx_giveup [where net = net and s = "?s3", OF a3])
       (simp add: c0 MAX_RETRIES_def)
  then obtain e where "?P e" ..
  then have e: "settle cfg (net 3) = Inl e"
    and r3: "request net cfg ?s3 = (Inl (ApiErrorResponse.error (formatApiError e)), attempted ?s3)"
    unfolding n3 by blast+
  have "attempted ?s3 =
      \<lparr>retryAttempts = [url_of (Some cfg) \<mapsto> 3],
       trace = [Attempt, Wait 1000, Attempt, Wait 2000, Attempt, Wait 4000, Attempt]\<rparr>"
    by (simp add: attempted_def retried_def currentRetries_def fresh_service_def
          numeral_3_eq_3)
  with e r0 r1 r2 r3 show ?thesis by simp
qed



text \<open>
  Claim C3. A fresh service whose every attempt meets a 5xx answer puts four attempts on
  the wire (the original and \<open>MAX_RETRIES = 3\<close> retries), waits 1000, 2000 and 4000
  milliseconds before the first, second and third retry (\<open>2 ^ (k - 1)\<close> seconds before
  retry \<open>k\<close>), and then throws the formatted error of the fourth answer.
\<close>

theorem retry_ceiling:
  assumes "\<forall>n. \<exists>st txt d. net n = Answer st txt d \<and> 500 \<le> st \<and> st < 600"
  shows "\<exists>e s'. settle cfg (net 3) = Inl e \<and>
           request net cfg fresh_service = (Inl (ApiErrorResponse.error (formatApiError e)), s') \<and>
           trace s' = [Attempt, Wait 1000, Attempt, Wait 2000, Attempt, Wait 4000, Attempt] \<and>
           sent s' = 1 + MAX_RETRIES \<and>
           [w. Wait w \<leftarrow> trace s'] = map (\<lambda>k. 2 ^ (k - 1) * 1000) [1, 2, 3]"
proof -
  from request_always_5xx [OF assms, of cfg] obtain e where
    "settle cfg (net 3) = Inl e" and
    "request net cfg fresh_service =
       (Inl (ApiErrorResponse.error (formatApiError e)),
        \<lparr>retryAttempts = [url_of (Some cfg) \<mapsto> 3],
         trace = [Attempt, Wait 1000, Attempt, Wait 2000, Attempt, Wait 4000, Attempt]\<rparr>)"
    by blast
  then show ?thesis
    by (simp add: sent_def MAX_RETRIES_def)
qed

theorem retry_ceiling_witness:
  "(\<forall>n. \<exists>st txt d. (\<lambda>_. Answer 503 ''Service Unavailable'' NoData) n = Answer st txt d
        \<and> 500 \<le> st \<and> st < 600) \<and>
   fst (request (\<lambda>_. Answer 503 ''Service Unavailable'' NoData)
          \<lparr>url = Some ''/health'', http_method = ''get''\<rparr> fresh_service)
     = Inl ''HTTP 503: Service Unavailable'' \<and>
   trace (snd (request (\<lambda>_. Answer 503 ''Service Unavailable'' NoData)
          \<lparr>url = Some ''/health'', http_method = ''get''\<rparr> fresh_service))
     = [Attempt, Wait 1000, Attempt, Wait 2000, Attempt, Wait 4000, Attempt]"
proof -
  have h: "\<forall>n. \<exists>st txt d. (\<lambda>_. Answer 503 ''Service Unavailable'' NoData) n = Answer st txt d
        \<and> 500 \<le> st \<and> st < (600::nat)"
    by simp
  have d: "string_of_nat 503 = ''503''"
    by code_simp
  from retry_ceiling [OF h, of "\<lparr>url = Some ''/health'', http_method = ''get''\<rparr>"] h d
  show ?thesis
    by (auto simp: settle_def formatApiError_def)
qed



text \<open>
  Claim C2, as stated, fails: a connection-refused failure has no response at all, and
  it is thrown at once with the fixed message, with no retry and no counter touched.
\<close>

theorem retry_refused_counterexample:
  "response \<lparr>code = Some ''ECONNREFUSED'', message = ''connect ECONNREFUSED 127.0.0.1:8000'',
             response = None, config = Some \<lparr>url = Some ''/health'', http_method = ''get''\<rparr>\<rparr> = None
   \<and> handleResponseError
        \<lparr>code = Some ''ECONNREFUSED'', message = ''connect ECONNREFUSED 127.0.0.1:8000'',
         response = None, config = Some \<lparr>url = Some ''/health'', http_method = ''get''\<rparr>\<rparr>
        fresh_service
     = (Thrown ''Unable to connect to DeepGuard backend. Please ensure the server is running.'',
        fresh_service)"
  by (simp add: handleResponseError_def)

text \<open>
  Claim C2, amended. \<^verbatim>\<open>handleResponseError\<close> schedules a retry exactly when the error code
  is none of \<^verbatim>\<open>ECONNABORTED\<close>, \<^verbatim>\<open>ECONNREFUSED\<close>, \<^verbatim>\<open>ENOTFOUND\<close>, the error carries its
  request configuration, there is no response or the status is in \<open>[500, 600)\<close>, and the
  counter of the url is below \<open>MAX_RETRIES\<close>. A 4xx response is never retried. A
  connection-refused or host-not-found failure is not retried: it is thrown at once with
  the fixed message.
\<close>

theorem retry_decision:
  "((\<exists>c. fst (handleResponseError e s) = Retry c) \<longleftrightarrow>
      code e \<notin> {Some ''ECONNABORTED'', Some ''ECONNREFUSED'', Some ''ENOTFOUND''} \<and>
      config e \<noteq> None \<and>
      (response e = None \<or> (\<exists>r. response e = Some r \<and> 500 \<le> status r \<and> status r < 600)) \<and>
      currentRetries s (url_of (config e)) < MAX_RETRIES)
   \<and> ((\<exists>r. response e = Some r \<and> 400 \<le> status r \<and> status r < 500) \<longrightarrow>
        (\<exists>msg. handleResponseError e s = (Thrown msg, s)))
   \<and> (code e = Some ''ECONNREFUSED'' \<or> code e = Some ''ENOTFOUND'' \<longrightarrow>
        handleResponseError e s =
          (Thrown ''Unable to connect to DeepGuard backend. Please ensure the server is running.'', s))"
proof (intro conjI)
  show "(\<exists>c. fst (handleResponseError e s) = Retry c) \<longleftrightarrow>
      code e \<notin> {Some ''ECONNABORTED'', Some ''ECONNREFUSED'', Some ''ENOTFOUND''} \<and>
      config e \<noteq> None \<and>
      (response e = None \<or> (\<exists>r. response e = Some r \<and> 500 \<le> status r \<and> status r < 600)) \<and>
      currentRetries s (url_of (config e)) < MAX_RETRIES"
    by (cases "response e") (auto simp: handleResponseError_def Let_def shouldRetry_def)
next
  show "(\<exists>r. response e = Some r \<and> 400 \<le> status r \<and> status r < 500) \<longrightarrow>
        (\<exists>msg. handleResponseError e s = (Thrown msg, s))"
    by (auto simp: handleResponseError_def Let_def shouldRetry_def)
next
  show "code e = Some ''ECONNREFUSED'' \<or> code e = Some ''ENOTFOUND'' \<longrightarrow>
        handleResponseError e s =
          (Thrown ''Unable to connect to DeepGuard backend. Please ensure the server is running.'', s)"
    by (auto simp: handleResponseError_def Let_def)
qed

theorem retry_decision_witness:
  "(\<exists>c. fst (handleResponseError
        \<lparr>code = Some ''ERR_NETWORK'', message = ''Network Error'', response = None,
         config = Some \<lparr>url = Some ''/health'', http_method = ''get''\<rparr>\<rparr> fresh_service) = Retry c)
   \<and> (\<exists>msg. handleResponseError
        \<lparr>code = Some ''ERR_BAD_REQUEST'', message = ''Request failed'',
         response = Some \<lparr>status = 404, statusText = ''Not Found'', data = NoData,
                           response_config = \<lparr>url = Some ''/health'', http_method = ''get''\<rparr>\<rparr>,
         config = Some \<lparr>url = Some ''/health'', http_method = ''get''\<rparr>\<rparr> fresh_service
        = (Thrown msg, fresh_service))
   \<and> handleResponseError
        \<lparr>code = Some ''ENOTFOUND'', message = ''getaddrinfo ENOTFOUND'', response = None,
         config = Some \<lparr>url = Some ''/health'', http_method = ''get''\<rparr>\<rparr> fresh_service
       = (Thrown ''Unable to connect to DeepGuard backend. Please ensure the server is running.'',
          fresh_service)"
proof (intro conjI)
  have "currentRetries fresh_service u < MAX_RETRIES" for u
    by (simp add: currentRetries_def fresh_service_def MAX_RETRIES_def)
  with retry_decision [of "\<lparr>code = Some ''ERR_NETWORK'', message = ''Network Error'',
         response = None, config = Some \<lparr>url = Some ''/health'', http_method = ''get''\<rparr>\<rparr>"
         fresh_service]
  show "\<exists>c. fst (handleResponseError
        \<lparr>code = Some ''ERR_NETWORK'', message = ''Network Error'', response = None,
         config = Some \<lparr>url = Some ''/health'', http_method = ''get''\<rparr>\<rparr> fresh_service) = Retry c"
    by simp
next
  from retry_decision [of "\<lparr>code = Some ''ERR_BAD_REQUEST'', message = ''Request failed'',
         response = Some \<lparr>status = 404, statusText = ''Not Found'', data = NoData,
                           response_config = \<lparr>url = Some ''/health'', http_method = ''get''\<rparr>\<rparr>,
         config = Some \<lparr>url = Some ''/health'', http_method = ''get''\<rparr>\<rparr>" fresh_service]
  show "\<exists>msg. handleResponseError
        \<lparr>code = Some ''ERR_BAD_REQUEST'', message = ''Request failed'',
         response = Some \<lparr>status = 404, statusText = ''Not Found'', data = NoData,
                           response_config = \<lparr>url = Some ''/health'', http_method = ''get''\<rparr>\<rparr>,
         config = Some \<lparr>url = Some ''/health'', http_method = ''get''\<rparr>\<rparr> fresh_service
        = (Thrown msg, fresh_service)"
    by simp
next
  from retry_decision [of "\<lparr>code = Some ''ENOTFOUND'', message = ''getaddrinfo ENOTFOUND'',
         response = None, config = Some \<lparr>url = Some ''/health'', http_method = ''get''\<rparr>\<rparr>"
         fresh_service]
  show "handleResponseError
        \<lparr>code = Some ''ENOTFOUND'', message = ''getaddrinfo ENOTFOUND'', response = None,
         config = Some \<lparr>url = Some ''/health'', http_method = ''get''\<rparr>\<rparr> fresh_service
       = (Thrown ''Unable to connect to DeepGuard backend. Please ensure the server is running.'',
          fresh_service)"
    by simp
qed

section \<open>Properties of the upload progress and of the format validator\<close>


































text \<open>
  Beyond \<open>2 ^ 45\<close> bytes the binary64 roundings can change the integer: here the
  reported percentage is 51, and the exact quotient rounds to 50.
\<close>

lemma percentage_beyond_exact_range:
  "map_option percentage
     (progressReport \<lparr>ev_loaded = 505000000000051, ev_total = Some 1000000000000101\<rparr>) = Some 51
   \<and> \<lfloor>(of_nat (505000000000051 * 100) / of_nat 1000000000000101 :: rat) + 1 / 2\<rfloor> = 50"
proof -
  have "Math_round (binary64 (binary64 (505000000000051 * 100) / 1000000000000101)) = 51"
    by code_simp
  moreover have "\<lfloor>(50500000000005100 / 1000000000000101 :: rat) + 1 / 2\<rfloor> = 50"
    by (rule floor_unique, simp_all)
  ultimately show ?thesis
    by (simp add: progressReport_def)
qed



lemma length_split: "length (split c s) = Suc (length (filter (\<lambda>x. x = c) s))"
  by (induction s) (auto split: list.splits)

lemma split_no_separator: "c \<notin> set s \<Longrightarrow> split c s = [s]"
  by (induction s) auto

lemma last_split_Cons:
  assumes "c \<in> set s"
  shows "last (split c (x # s)) = last (split c s)"
proof -
  from assms have "filter (\<lambda>x. x = c) s \<noteq> []"
    by (auto simp: filter_empty_conv)
  then have "2 \<le> length (split c s)"
    by (cases "filter (\<lambda>x. x = c) s") (simp_all add: length_split)
  then obtain w v ws where "split c s = w # v # ws"
    by (cases "split c s"; cases "tl (split c s)") auto
  then show ?thesis by simp
qed

lemma last_split_append:
  assumes "c \<notin> set suf"
  shows "last (split c (pre @ c # suf)) = suf"
proof (induction pre)
  case Nil
  have "split c suf \<noteq> []" by (cases suf) (auto split: list.splits)
  with assms show ?case by (simp add: split_no_separator)
next
  case (Cons x pre)
  have "c \<in> set (pre @ c # suf)" by simp
  from last_split_Cons [OF this, of x] Cons show ?case by simp
qed

text \<open>
  Claim C7, as stated, fails: the name \<^verbatim>\<open>wav\<close> contains no dot, and the file is accepted
  when \<^verbatim>\<open>.wav\<close> is a supported format.
\<close>

theorem validate_dotless_counterexample:
  "CHR ''.'' \<notin> set (name \<lparr>name = ''wav'', size_bytes = 1000\<rparr>) \<and>
   validateFile \<lparr>name = ''wav'', size_bytes = 1000\<rparr>
     (Inr \<lparr>audio = [''.wav'', ''.mp3''], image_exts = [''.png'']\<rparr>) = Valid"
  by (simp add: validateFile_def fileExtension_def toLowerCase_def toLowerCase_char_def
        maxSize_def)

text \<open>
  Claim C7, amended. When the name contains a dot, the extension checked is the dot
  followed by the lower-cased text after the last dot. When the name contains no dot, the
  extension checked is the dot followed by the whole lower-cased name, so the file is
  rejected as an unsupported format exactly when that text is not in the fetched list of
  audio and image formats; when it is in the list, the size check decides.
\<close>

theorem validate_extension:
  "(CHR ''.'' \<notin> set suf \<and> name file = pre @ ''.'' @ suf \<longrightarrow>
      fileExtension file = ''.'' @ toLowerCase suf)
   \<and> (CHR ''.'' \<notin> set (name file) \<longrightarrow>
      fileExtension file = ''.'' @ toLowerCase (name file) \<and>
      validateFile file (Inr formats) =
        (if ''.'' @ toLowerCase (name file) \<in> set (audio formats @ image_exts formats)
         then (if size_bytes file > maxSize
               then Invalid (''File too large: '' @ toFixed2_MB (size_bytes file)
                             @ ''MB. Maximum size: 100MB'')
               else Valid)
         else Invalid (''Unsupported file format: '' @ ''.'' @ toLowerCase (name file)
                       @ ''. Supported formats: ''
                       @ join '', '' (audio formats @ image_exts formats))))"
proof (intro conjI impI)
  assume "CHR ''.'' \<notin> set suf \<and> name file = pre @ ''.'' @ suf"
  then have "last (split (CHR ''.'') (name file)) = suf"
    using last_split_append [of "CHR ''.''" suf pre] by simp
  moreover have "split (CHR ''.'') (name file) \<noteq> []"
    using length_split [of "CHR ''.''" "name file"] by auto
  ultimately show "fileExtension file = ''.'' @ toLowerCase suf"
    by (cases "split (CHR ''.'') (name file)") (simp_all add: fileExtension_def)
next
  assume d: "CHR ''.'' \<notin> set (name file)"
  then show e: "fileExtension file = ''.'' @ toLowerCase (name file)"
    by (simp add: fileExtension_def split_no_separator)
  show "validateFile file (Inr formats) =
        (if ''.'' @ toLowerCase (name file) \<in> set (audio formats @ image_exts formats)
         then (if size_bytes file > maxSize
               then Invalid (''File too large: '' @ toFixed2_MB (size_bytes file)
                             @ ''MB. Maximum size: 100MB'')
               else Valid)
         else Invalid (''Unsupported file format: '' @ ''.'' @ toLowerCase (name file)
                       @ ''. Supported formats: ''
                       @ join '', '' (audio formats @ image_exts formats)))"
    unfolding validateFile_def e by (simp add: Let_def)
qed

theorem validate_extension_witness:
  "fileExtension \<lparr>name = ''song.final.MP3'', size_bytes = 5\<rparr> = ''.mp3''
   \<and> validateFile \<lparr>name = ''README'', size_bytes = 5\<rparr>
        (Inr \<lparr>audio = [''.wav''], image_exts = [''.png'']\<rparr>)
       = Invalid ''Unsupported file format: .readme. Supported formats: .wav, .png''"
proof -
  have l: "toLowerCase ''MP3'' = ''mp3''" "toLowerCase ''README'' = ''readme''"
    by code_simp+
  from validate_extension [of "''MP3''" "\<lparr>name = ''song.final.MP3'', size_bytes = 5\<rparr>"
      "''song.final''"]
  have "fileExtension \<lparr>name = ''song.final.MP3'', size_bytes = 5\<rparr> = ''.mp3''"
    by (simp add: l)
  moreover
  from validate_extension [of _ "\<lparr>name = ''README'', size_bytes = 5\<rparr>" _
      "\<lparr>audio = [''.wav''], image_exts = [''.png'']\<rparr>"]
  have "validateFile \<lparr>name = ''README'', size_bytes = 5\<rparr>
        (Inr \<lparr>audio = [''.wav''], image_exts = [''.png'']\<rparr>)
       = Invalid ''Unsupported file format: .readme. Supported formats: .wav, .png''"
    by (simp add: l)
  ultimately show ?thesis by blast
qed

section \<open>Properties of the analysis session\<close>

text \<open>
  Claim C1, as stated, fails: after a second \<^verbatim>\<open>analyzeFile\<close> has passed validation while
  the first request is in flight, both requests are live, neither abort signal has been
  triggered, and the response of the first request is written into the session state.
\<close>

theorem analyze_twice_counterexample:
  "live (analyzeFile \<lparr>name = ''b.wav'', size_bytes = 20\<rparr> Valid
          (analyzeFile \<lparr>name = ''a.wav'', size_bytes = 10\<rparr> Valid useFileAnalysis)) 0
   \<and> live (analyzeFile \<lparr>name = ''b.wav'', size_bytes = 20\<rparr> Valid
          (analyzeFile \<lparr>name = ''a.wav'', size_bytes = 10\<rparr> Valid useFileAnalysis)) 1
   \<and> controllers (analyzeFile \<lparr>name = ''b.wav'', size_bytes = 20\<rparr> Valid
          (analyzeFile \<lparr>name = ''a.wav'', size_bytes = 10\<rparr> Valid useFileAnalysis))
       = [False, False]
   \<and> result (state (analyzeFile_fulfilled 0
          \<lparr>file_type = AUDIO, detection_result = FAKE, confidence_score = 9 / 10,
           processing_time_ms = 120, file_hash = ''aa'', timestamp = ''t1''\<rparr>
          (analyzeFile \<lparr>name = ''b.wav'', size_bytes = 20\<rparr> Valid
            (analyzeFile \<lparr>name = ''a.wav'', size_bytes = 10\<rparr> Valid useFileAnalysis))))
       = Some \<lparr>file_type = AUDIO, detection_result = FAKE, confidence_score = 9 / 10,
           processing_time_ms = 120, file_hash = ''aa'', timestamp = ''t1''\<rparr>"
  by (simp add: live_def analyzeFile_def analyzeFile_fulfilled_def useFileAnalysis_def)

text \<open>
  Claim C1, amended. An \<^verbatim>\<open>analyzeFile\<close> that passes validation aborts nothing: it adds a
  fresh, unaborted controller, points the ref at it and issues its request, so every
  request that was live stays live beside the new one; and the response of any live
  request, when it arrives, becomes the result of the session state.
\<close>

theorem analyze_keeps_previous:
  "controllers (analyzeFile file Valid h) = controllers h @ [False]
   \<and> abortControllerRef (analyzeFile file Valid h) = Some (length (controllers h))
   \<and> live (analyzeFile file Valid h) (length (controllers h))
   \<and> (live h c \<longrightarrow> live (analyzeFile file Valid h) c)
   \<and> (live (analyzeFile file Valid h) c \<longrightarrow>
        result (state (analyzeFile_fulfilled c r (analyzeFile file Valid h))) = Some r)"
  by (auto simp: live_def analyzeFile_def analyzeFile_fulfilled_def nth_append)

theorem analyze_keeps_previous_witness:
  "live (analyzeFile \<lparr>name = ''a.wav'', size_bytes = 10\<rparr> Valid useFileAnalysis) 0
   \<and> live (analyzeFile \<lparr>name = ''b.wav'', size_bytes = 20\<rparr> Valid
          (analyzeFile \<lparr>name = ''a.wav'', size_bytes = 10\<rparr> Valid useFileAnalysis)) 0
   \<and> result (state (analyzeFile_fulfilled 0
          \<lparr>file_type = AUDIO, detection_result = FAKE, confidence_score = 9 / 10,
           processing_time_ms = 120, file_hash = ''aa'', timestamp = ''t1''\<rparr>
          (analyzeFile \<lparr>name = ''b.wav'', size_bytes = 20\<rparr> Valid
            (analyzeFile \<lparr>name = ''a.wav'', size_bytes = 10\<rparr> Valid useFileAnalysis))))
       = Some \<lparr>file_type = AUDIO, detection_result = FAKE, confidence_score = 9 / 10,
           processing_time_ms = 120, file_hash = ''aa'', timestamp = ''t1''\<rparr>"
proof -
  let ?h1 = "analyzeFile \<lparr>name = ''a.wav'', size_bytes = 10\<rparr> Valid useFileAnalysis"
  have l: "live ?h1 0"
    using analyze_keeps_previous [of "\<lparr>name = ''a.wav'', size_bytes = 10\<rparr>" useFileAnalysis]
    by (simp add: useFileAnalysis_def)
  with analyze_keeps_previous [of "\<lparr>name = ''b.wav'', size_bytes = 20\<rparr>" ?h1 0]
  show ?thesis by blast
qed

text \<open>
  Claim C8, as stated, fails: after an analysis has succeeded (nothing analysing, nothing
  pending, no error) \<^verbatim>\<open>cancelAnalysis\<close> sets the error message.
\<close>

theorem cancel_after_success_counterexample:
  "isAnalyzing (state (analyzeFile_fulfilled 0
        \<lparr>file_type = AUDIO, detection_result = REAL, confidence_score = 9 / 10,
         processing_time_ms = 120, file_hash = ''aa'', timestamp = ''t1''\<rparr>
        (analyzeFile \<lparr>name = ''a.wav'', size_bytes = 10\<rparr> Valid useFileAnalysis))) = False
   \<and> pending (analyzeFile_fulfilled 0
        \<lparr>file_type = AUDIO, detection_result = REAL, confidence_score = 9 / 10,
         processing_time_ms = 120, file_hash = ''aa'', timestamp = ''t1''\<rparr>
        (analyzeFile \<lparr>name = ''a.wav'', size_bytes = 10\<rparr> Valid useFileAnalysis)) = []
   \<and> error (state (analyzeFile_fulfilled 0
        \<lparr>file_type = AUDIO, detection_result = REAL, confidence_score = 9 / 10,
         processing_time_ms = 120, file_hash = ''aa'', timestamp = ''t1''\<rparr>
        (analyzeFile \<lparr>name = ''a.wav'', size_bytes = 10\<rparr> Valid useFileAnalysis))) = None
   \<and> error (state (cancelAnalysis (analyzeFile_fulfilled 0
        \<lparr>file_type = AUDIO, detection_result = REAL, confidence_score = 9 / 10,
         processing_time_ms = 120, file_hash = ''aa'', timestamp = ''t1''\<rparr>
        (analyzeFile \<lparr>name = ''a.wav'', size_bytes = 10\<rparr> Valid useFileAnalysis))))
       = Some ''Analysis cancelled by user''"
  by (simp add: live_def analyzeFile_def analyzeFile_fulfilled_def useFileAnalysis_def
        cancelAnalysis_def abort_def)

text \<open>
  Claim C8, amended. \<^verbatim>\<open>cancelAnalysis\<close> changes nothing when the ref holds no controller,
  which is so in the initial state and after \<^verbatim>\<open>resetAnalysis\<close>. When the ref holds a
  controller, whether or not its request is still in flight, it aborts that controller,
  sets \<^verbatim>\<open>isAnalyzing\<close> to false and the error to the fixed message, and leaves result,
  progress and uploaded file as they were.
\<close>

theorem cancel_effect:
  "(abortControllerRef h = None \<longrightarrow> cancelAnalysis h = h)
   \<and> cancelAnalysis useFileAnalysis = useFileAnalysis
   \<and> cancelAnalysis (resetAnalysis h) = resetAnalysis h
   \<and> (abortControllerRef h = Some c \<longrightarrow>
        state (cancelAnalysis h)
          = (state h)\<lparr>isAnalyzing := False, error := Some ''Analysis cancelled by user''\<rparr>
        \<and> result (state (cancelAnalysis h)) = result (state h)
        \<and> progress (state (cancelAnalysis h)) = progress (state h)
        \<and> uploadedFile (state (cancelAnalysis h)) = uploadedFile (state h)
        \<and> controllers (cancelAnalysis h) = (controllers h)[c := True]
        \<and> \<not> live (cancelAnalysis h) c)"
  by (auto simp: cancelAnalysis_def abort_def live_def useFileAnalysis_def resetAnalysis_def
        Let_def split: option.splits)

theorem cancel_effect_witness:
  "cancelAnalysis useFileAnalysis = useFileAnalysis
   \<and> abortControllerRef (analyzeFile \<lparr>name = ''a.wav'', size_bytes = 10\<rparr> Valid useFileAnalysis)
       = Some 0
   \<and> error (state (cancelAnalysis
        (analyzeFile \<lparr>name = ''a.wav'', size_bytes = 10\<rparr> Valid useFileAnalysis)))
       = Some ''Analysis cancelled by user''
   \<and> \<not> live (cancelAnalysis
        (analyzeFile \<lparr>name = ''a.wav'', size_bytes = 10\<rparr> Valid useFileAnalysis)) 0"
proof -
  let ?h = "analyzeFile \<lparr>name = ''a.wav'', size_bytes = 10\<rparr> Valid useFileAnalysis"
  have n: "abortControllerRef useFileAnalysis = None"
    by (simp add: useFileAnalysis_def)
  have r: "abortControllerRef ?h = Some 0"
    by (simp add: analyzeFile_def useFileAnalysis_def)
  from cancel_effect [of useFileAnalysis] n cancel_effect [of ?h 0] r show ?thesis
    by simp
qed

section \<open>Properties of the calibration configuration and its panel\<close>

lemma as_config_JSON_stringify: "as_config (JSON_stringify c) = c"
  by (cases "flip_output_interpretation c"; cases "threshold c"; cases "uncertainty_range c")
     (simp_all add: as_config_def JSON_stringify_def)

text \<open>
  Claim C9. With a store that can be written and read, \<^verbatim>\<open>setConfig\<close> yields the shallow
  merge (a key absent from the update keeps its current value, a key present takes the
  update's value), the store holds the text of the merged configuration under the fixed
  key, and a fresh initialisation from that store returns exactly the merged
  configuration.
\<close>

theorem config_round_trip:
  assumes "writable st" and "readable st"
  shows "fst (setConfig p (c, st)) = merge c p
   \<and> (new_flip_output_interpretation p = Absent \<longrightarrow>
        flip_output_interpretation (merge c p) = flip_output_interpretation c)
   \<and> (new_threshold p = Absent \<longrightarrow> threshold (merge c p) = threshold c)
   \<and> (new_uncertainty_range p = Absent \<longrightarrow>
        uncertainty_range (merge c p) = uncertainty_range c)
   \<and> (\<forall>v. new_flip_output_interpretation p = Entry v \<longrightarrow>
        flip_output_interpretation (merge c p) = v)
   \<and> (\<forall>v. new_threshold p = Entry v \<longrightarrow> threshold (merge c p) = v)
   \<and> (\<forall>v. new_uncertainty_range p = Entry v \<longrightarrow> uncertainty_range (merge c p) = v)
   \<and> items (snd (setConfig p (c, st))) storage_key = Some (Text (JSON_stringify (merge c p)))
   \<and> useAudioCalibration (snd (setConfig p (c, st))) = merge c p"
  using assms
  by (simp add: setConfig_def Let_def merge_def spread_def useAudioCalibration_def
        as_config_JSON_stringify)

theorem config_round_trip_witness:
  "useAudioCalibration \<lparr>items = Map.empty, readable = True, writable = True\<rparr> = defaultAudioConfig
   \<and> useAudioCalibration (snd (setConfig
        \<lparr>new_flip_output_interpretation = Absent, new_threshold = Entry (Some (7 / 10)),
         new_uncertainty_range = Absent\<rparr>
        (defaultAudioConfig, \<lparr>items = Map.empty, readable = True, writable = True\<rparr>)))
     = \<lparr>flip_output_interpretation = Some False, threshold = Some (7 / 10),
        uncertainty_range = Some (1 / 10)\<rparr>"
proof -
  have "useAudioCalibration \<lparr>items = Map.empty, readable = True, writable = True\<rparr>
          = defaultAudioConfig"
    by (simp add: useAudioCalibration_def)
  moreover have "merge defaultAudioConfig
        \<lparr>new_flip_output_interpretation = Absent, new_threshold = Entry (Some (7 / 10)),
         new_uncertainty_range = Absent\<rparr>
      = \<lparr>flip_output_interpretation = Some False, threshold = Some (7 / 10),
        uncertainty_range = Some (1 / 10)\<rparr>"
    by (simp add: merge_def spread_def defaultAudioConfig_def)
  ultimately show ?thesis
    using config_round_trip [of "\<lparr>items = Map.empty, readable = True, writable = True\<rparr>"
        "\<lparr>new_flip_output_interpretation = Absent, new_threshold = Entry (Some (7 / 10)),
         new_uncertainty_range = Absent\<rparr>" defaultAudioConfig]
    by simp
qed

text \<open>
  The range that the calibration panel prints in its help text is centred at the fixed
  value 0.5, whatever the configured threshold; it takes no part in a verdict.
\<close>

lemma panel_range:
  "currentRange cfg = (1 / 2 - shown_range cfg / 2, 1 / 2 + shown_range cfg / 2)
   \<and> currentRange (cfg\<lparr>threshold := t\<rparr>) = currentRange cfg"
  by (simp add: currentRange_def shown_range_def)

section \<open>Properties of the verdict interpreter\<close>

text \<open>
  Claim C4. The effective fake-probability is \<open>1 - s\<close> when the flip flag is set and
  \<open>s\<close> otherwise, it stays in \<open>[0, 1]\<close> for a score in \<open>[0, 1]\<close>, and the verdict is
  decided from it; with threshold 0.5 and uncertainty range 0 the score 0.8 is fake
  without the flip and real with it.
\<close>

theorem flip_semantics:
  "pFake s cfg = (if flipOutputInterpretation cfg then 1 - s else s)
   \<and> (0 \<le> s \<and> s \<le> 1 \<longrightarrow> 0 \<le> pFake s cfg \<and> pFake s cfg \<le> 1)
   \<and> interpret_verdict s cfg =
       (if fst (band cfg) \<le> pFake s cfg \<and> pFake s cfg \<le> snd (band cfg) then UNCERTAIN
        else if decisionThreshold cfg \<le> pFake s cfg then FAKE else REAL)
   \<and> interpret_verdict (8 / 10)
        \<lparr>flipOutputInterpretation = False, decisionThreshold = 1 / 2, uncertaintyRange = 0\<rparr>
       = FAKE
   \<and> interpret_verdict (8 / 10)
        \<lparr>flipOutputInterpretation = True, decisionThreshold = 1 / 2, uncertaintyRange = 0\<rparr>
       = REAL"
  by (auto simp: pFake_def interpret_verdict_def band_def Let_def)

theorem flip_semantics_witness:
  "(0 :: rat) \<le> 8 / 10 \<and> (8 / 10 :: rat) \<le> 1
   \<and> pFake (8 / 10)
        \<lparr>flipOutputInterpretation = True, decisionThreshold = 1 / 2, uncertaintyRange = 0\<rparr>
       = 1 / 5
   \<and> 0 \<le> pFake (8 / 10)
        \<lparr>flipOutputInterpretation = True, decisionThreshold = 1 / 2, uncertaintyRange = 0\<rparr>"
  using flip_semantics [of "8 / 10"
      "\<lparr>flipOutputInterpretation = True, decisionThreshold = 1 / 2, uncertaintyRange = 0\<rparr>"]
  by simp




end
